theory Spec2Isabelle
  imports Main "HOL-Library.Word"
begin

unbundle bit_operations_syntax

section \<open>The UDP transport of arsdk-ng: framing, socket I/O and link status\<close>

text \<open>
  The development embeds the net transport (the C file with \<^verbatim>\<open>process_rxbuf\<close>,
  \<^verbatim>\<open>socket_read\<close>, \<^verbatim>\<open>socket_write\<close> and
  \<^verbatim>\<open>arsdk_transport_net_send_data\<close>) and the table of transport ids
  (\<^verbatim>\<open>arsdk_transport_ids.h\<close>). \<^verbatim>\<open>uint8_t\<close> and \<^verbatim>\<open>uint32_t\<close> are words, so
  that \<open>+\<close> and \<open>-\<close> wrap as they do in C; status codes and \<^verbatim>\<open>errno\<close> values are
  \<open>int\<close>; \<^verbatim>\<open>size_t\<close> lengths are \<open>nat\<close>.
\<close>

type_synonym u8 = "8 word"
type_synonym u32 = "32 word"

subsection \<open>Transport ids (arsdk\_transport\_ids.h)\<close>

text \<open>Each macro is one definition; \<^verbatim>\<open>/\<close> on these non-negative ints is \<open>div\<close>.\<close>

definition ARSDK_TRANSPORT_ID_MAX :: int where
  "ARSDK_TRANSPORT_ID_MAX = 256"

definition ARSDK_TRANSPORT_ID_MAX_BLE :: int where
  "ARSDK_TRANSPORT_ID_MAX_BLE = 32"

definition ARSDK_TRANSPORT_ID_INVALID :: int where
  "ARSDK_TRANSPORT_ID_INVALID = 255"

definition ARSDK_TRANSPORT_ID_PING :: int where
  "ARSDK_TRANSPORT_ID_PING = 0"

definition ARSDK_TRANSPORT_ID_PONG :: int where
  "ARSDK_TRANSPORT_ID_PONG = 1"

definition ARSDK_TRANSPORT_ID_C2D_CMD_NOACK :: int where
  "ARSDK_TRANSPORT_ID_C2D_CMD_NOACK = 10"

definition ARSDK_TRANSPORT_ID_C2D_CMD_WITHACK :: int where
  "ARSDK_TRANSPORT_ID_C2D_CMD_WITHACK = 11"

definition ARSDK_TRANSPORT_ID_C2D_CMD_HIGHPRIO :: int where
  "ARSDK_TRANSPORT_ID_C2D_CMD_HIGHPRIO = 12"

definition ARSDK_TRANSPORT_ID_D2C_CMD_NOACK :: int where
  "ARSDK_TRANSPORT_ID_D2C_CMD_NOACK = 127"

definition ARSDK_TRANSPORT_ID_D2C_CMD_WITHACK :: int where
  "ARSDK_TRANSPORT_ID_D2C_CMD_WITHACK = 126"

definition ARSDK_TRANSPORT_ID_D2C_CMD_NOACK_BLE :: int where
  "ARSDK_TRANSPORT_ID_D2C_CMD_NOACK_BLE = 15"

definition ARSDK_TRANSPORT_ID_D2C_CMD_WITHACK_BLE :: int where
  "ARSDK_TRANSPORT_ID_D2C_CMD_WITHACK_BLE = 14"

definition ARSDK_TRANSPORT_ID_ACKOFF :: int where
  "ARSDK_TRANSPORT_ID_ACKOFF = ARSDK_TRANSPORT_ID_MAX div 2"

definition ARSDK_TRANSPORT_ID_ACKOFF_BLE :: int where
  "ARSDK_TRANSPORT_ID_ACKOFF_BLE = ARSDK_TRANSPORT_ID_MAX_BLE div 2"

definition ARSDK_TRANSPORT_ID_C2D_CMD_ACK :: int where
  "ARSDK_TRANSPORT_ID_C2D_CMD_ACK =
     ARSDK_TRANSPORT_ID_D2C_CMD_WITHACK + ARSDK_TRANSPORT_ID_ACKOFF"

definition ARSDK_TRANSPORT_ID_C2D_CMD_ACK_BLE :: int where
  "ARSDK_TRANSPORT_ID_C2D_CMD_ACK_BLE =
     ARSDK_TRANSPORT_ID_D2C_CMD_WITHACK_BLE + ARSDK_TRANSPORT_ID_ACKOFF_BLE"

definition ARSDK_TRANSPORT_ID_D2C_CMD_ACK :: int where
  "ARSDK_TRANSPORT_ID_D2C_CMD_ACK =
     ARSDK_TRANSPORT_ID_C2D_CMD_WITHACK + ARSDK_TRANSPORT_ID_ACKOFF"

definition ARSDK_TRANSPORT_ID_D2C_CMD_HIGHPRIO_ACK :: int where
  "ARSDK_TRANSPORT_ID_D2C_CMD_HIGHPRIO_ACK =
     ARSDK_TRANSPORT_ID_C2D_CMD_HIGHPRIO + ARSDK_TRANSPORT_ID_ACKOFF"

definition ARSDK_TRANSPORT_ID_D2C_CMD_ACK_BLE :: int where
  "ARSDK_TRANSPORT_ID_D2C_CMD_ACK_BLE =
     ARSDK_TRANSPORT_ID_C2D_CMD_WITHACK + ARSDK_TRANSPORT_ID_ACKOFF_BLE"

definition ARSDK_TRANSPORT_ID_D2C_CMD_HIGHPRIO_ACK_BLE :: int where
  "ARSDK_TRANSPORT_ID_D2C_CMD_HIGHPRIO_ACK_BLE =
     ARSDK_TRANSPORT_ID_C2D_CMD_HIGHPRIO + ARSDK_TRANSPORT_ID_ACKOFF_BLE"

text \<open>The six acknowledgment ids the header defines, and the nine primary ids.\<close>

definition ack_ids :: "int list" where
  "ack_ids =
     [ARSDK_TRANSPORT_ID_C2D_CMD_ACK, ARSDK_TRANSPORT_ID_C2D_CMD_ACK_BLE,
      ARSDK_TRANSPORT_ID_D2C_CMD_ACK, ARSDK_TRANSPORT_ID_D2C_CMD_HIGHPRIO_ACK,
      ARSDK_TRANSPORT_ID_D2C_CMD_ACK_BLE, ARSDK_TRANSPORT_ID_D2C_CMD_HIGHPRIO_ACK_BLE]"

definition primary_ids :: "int list" where
  "primary_ids =
     [ARSDK_TRANSPORT_ID_PING, ARSDK_TRANSPORT_ID_PONG,
      ARSDK_TRANSPORT_ID_C2D_CMD_NOACK, ARSDK_TRANSPORT_ID_C2D_CMD_WITHACK,
      ARSDK_TRANSPORT_ID_C2D_CMD_HIGHPRIO,
      ARSDK_TRANSPORT_ID_D2C_CMD_WITHACK, ARSDK_TRANSPORT_ID_D2C_CMD_NOACK,
      ARSDK_TRANSPORT_ID_D2C_CMD_WITHACK_BLE, ARSDK_TRANSPORT_ID_D2C_CMD_NOACK_BLE]"

subsection \<open>Constants of the platform\<close>

text \<open>
  The \<^verbatim>\<open>errno\<close> numbers come from the platform's \<^verbatim>\<open>errno.h\<close>; the values are those
  of Linux, where \<^verbatim>\<open>EWOULDBLOCK\<close> is \<^verbatim>\<open>EAGAIN\<close>. POSIX makes every one of them positive.
\<close>

definition EINTR :: int where "EINTR = 4"
definition EAGAIN :: int where "EAGAIN = 11"
definition EWOULDBLOCK :: int where "EWOULDBLOCK = 11"
definition EINVAL :: int where "EINVAL = 22"
definition EPIPE :: int where "EPIPE = 32"
definition ENOBUFS :: int where "ENOBUFS = 105"

definition ARSDK_FRAME_HEADER_SIZE :: u32 where
  "ARSDK_FRAME_HEADER_SIZE = 7"

definition ARSDK_WOULD_BLOCK :: "int \<Rightarrow> bool" where
  "ARSDK_WOULD_BLOCK err \<longleftrightarrow> err = EAGAIN \<or> err = EWOULDBLOCK"

subsection \<open>Headers, payloads and the transport object\<close>

text \<open>
  Modelled from the spec: \<^verbatim>\<open>struct arsdk_transport_header\<close> and
  \<^verbatim>\<open>struct arsdk_transport_payload\<close>, which are declared in a header of the library
  that is not among the files at hand. The spec gives a header the fields type, id and
  seq, and makes a payload a borrowed view, a pointer and a length. The fields of the
  header are kept as naturals, whatever their C type: storing one into a \<^verbatim>\<open>uint8_t\<close>
  of the wire header truncates it modulo 256, and a wire byte read back is below 256.

  On the receive path the pointer of a payload is \<^verbatim>\<open>&rxbuf[off]\<close>, kept as the
  index \<open>off\<close>; on the send path it is kept as the bytes readable from it. \<open>None\<close>
  is \<^verbatim>\<open>NULL\<close>.
\<close>

record arsdk_transport_header =
  hdr_type :: nat
  hdr_id :: nat
  hdr_seq :: nat

record 'p arsdk_transport_payload =
  cdata :: "'p option"
  len :: nat

datatype arsdk_link_status = ARSDK_LINK_STATUS_KO | ARSDK_LINK_STATUS_OK

datatype arsdk_cmd_dir = ARSDK_CMD_DIR_RX | ARSDK_CMD_DIR_TX

text \<open>One constructor for each logging call of the transport, with its arguments.\<close>

datatype log_event =
    LOGI_rx_drop int
  | LOGI_eof
  | LOG_FD_ERRNO_read int
  | LOGI_tx_drop nat
  | LOGW_sendmsg u32 int
  | LOG_FD_ERRNO_sendmsg int
  | LOGE_partial_write u32 u32
  | LOGI_succeed_after u32 "32 word"

text \<open>
  Modelled from the spec: the level of each logging macro, which the logging header of
  the library defines. \<^verbatim>\<open>ARSDK_LOGE\<close> logs an error, \<^verbatim>\<open>ARSDK_LOGW\<close> a warning and
  \<^verbatim>\<open>ARSDK_LOGI\<close> an information; of \<^verbatim>\<open>ARSDK_LOG_FD_ERRNO\<close> the spec says that it
  logs the error of a failed read or write.
\<close>

fun is_error_log :: "log_event \<Rightarrow> bool" where
  "is_error_log (LOG_FD_ERRNO_read e) = True"
| "is_error_log (LOG_FD_ERRNO_sendmsg e) = True"
| "is_error_log (LOGE_partial_write w s) = True"
| "is_error_log (LOGI_rx_drop n) = False"
| "is_error_log LOGI_eof = False"
| "is_error_log (LOGI_tx_drop n) = False"
| "is_error_log (LOGW_sendmsg s e) = False"
| "is_error_log (LOGI_succeed_after s n) = False"

text \<open>
  The state that the send and receive paths read and write: the fields of
  \<^verbatim>\<open>struct arsdk_transport_net\<close> they use, the link status that the parent transport
  holds behind \<^verbatim>\<open>arsdk_transport_get_link_status\<close> and
  \<^verbatim>\<open>arsdk_transport_set_link_status\<close>, the frames handed to the parent's
  \<^verbatim>\<open>arsdk_transport_log_cmd\<close>, and the log. \<^verbatim>\<open>tx_fail\<close> is a C \<^verbatim>\<open>int\<close>: a 32-bit
  word read in two's complement (\<open>sint\<close>, \<open><s\<close>).
\<close>

record arsdk_transport_net =
  started :: int
  data_sock_fd :: int
  rx_drop_ratio :: int
  tx_drop_ratio :: int
  tx_fail :: "32 word"
  link_status :: arsdk_link_status
  cmd_log :: "(arsdk_cmd_dir \<times> u8 list) list"
  ulog :: "log_event list"

text \<open>
  Modelled from the spec: the getter and the setter of the link status, functions of
  the parent transport. The spec: the link status is one of OK and KO, is owned by the
  parent transport, and is read and written by the net transport through a getter and a
  setter.
\<close>

definition arsdk_transport_get_link_status :: "arsdk_transport_net \<Rightarrow> arsdk_link_status" where
  "arsdk_transport_get_link_status self = link_status self"

definition arsdk_transport_set_link_status ::
  "arsdk_transport_net \<Rightarrow> arsdk_link_status \<Rightarrow> arsdk_transport_net" where
  "arsdk_transport_set_link_status self status = self\<lparr>link_status := status\<rparr>"

text \<open>
  Modelled from the spec: \<^verbatim>\<open>arsdk_transport_log_cmd\<close>, a function of the parent
  transport. The spec: a logging sink for raw frame bytes tagged with the direction. The
  sink keeps the direction and the seven header bytes of each frame.
\<close>

definition arsdk_transport_log_cmd ::
  "arsdk_transport_net \<Rightarrow> u8 list \<Rightarrow> arsdk_cmd_dir \<Rightarrow> arsdk_transport_net" where
  "arsdk_transport_log_cmd self headerbuf dir = self\<lparr>cmd_log := cmd_log self @ [(dir, headerbuf)]\<rparr>"

text \<open>
  Modelled from the spec: \<^verbatim>\<open>arsdk_transport_payload_init_with_data\<close>, a function of the
  library. The spec: a payload is a borrowed view, a pointer and a length. The function
  makes the payload of the pointer and the length it is given.
\<close>

definition arsdk_transport_payload_init_with_data ::
  "'p option \<Rightarrow> nat \<Rightarrow> 'p arsdk_transport_payload" where
  "arsdk_transport_payload_init_with_data data n = \<lparr>cdata = data, len = n\<rparr>"

subsection \<open>Decoding: process\_rxbuf\<close>

text \<open>
  \<^verbatim>\<open>headerbuf = &rxbuf[rxoff]\<close> followed by the reads \<^verbatim>\<open>headerbuf[0..6]\<close>: the seven
  bytes at \<open>off\<close>, or \<open>None\<close> when one of them lies outside the buffer.
\<close>

definition read_headerbuf :: "u8 list \<Rightarrow> nat \<Rightarrow> u8 list option" where
  "read_headerbuf rxbuf off =
     (if off + 7 \<le> length rxbuf then Some (take 7 (drop off rxbuf)) else None)"

text \<open>
  \<^verbatim>\<open>size = headerbuf[3] | (headerbuf[4] << 8) | (headerbuf[5] << 16) | (headerbuf[6] << 24)\<close>.
  Each byte is promoted to \<^verbatim>\<open>int\<close>, and the result is stored in a \<^verbatim>\<open>uint32_t\<close>. The
  model takes the four bytes as the little-endian digits of the size, which is what
  compilers produce, also where \<^verbatim>\<open>headerbuf[6]\<close> is 128 or more and the shift reaches
  the sign bit of the \<^verbatim>\<open>int\<close>.
\<close>

definition decode_size :: "u8 list \<Rightarrow> u32" where
  "decode_size headerbuf =
     ucast (headerbuf ! 3) OR push_bit 8 (ucast (headerbuf ! 4)) OR
     push_bit 16 (ucast (headerbuf ! 5)) OR push_bit 24 (ucast (headerbuf ! 6))"

type_synonym rx_frame = "arsdk_transport_header \<times> nat arsdk_transport_payload"

text \<open>
  How the loop is left: the buffer is used up, a header is cut short (logged with the
  number of bytes left), a frame is bad, or the header bytes are not all in the buffer.
\<close>

datatype rx_stop = Exhausted | Partial_header u32 | Bad_frame | Read_out_of_bounds

datatype rx_step = Stop rx_stop | Dispatch rx_frame u32

text \<open>
  One turn of the \<^verbatim>\<open>while\<close> loop, entered with \<open>rxoff < rxlen\<close>. It either returns from
  the function, or hands one frame to \<^verbatim>\<open>arsdk_transport_log_cmd\<close> and
  \<^verbatim>\<open>arsdk_transport_recv_data\<close> and leaves the new \<open>rxoff\<close>. All of \<open>rxoff\<close>, \<open>size\<close>
  and \<open>payloadlen\<close> are \<^verbatim>\<open>uint32_t\<close>.
\<close>

definition process_rxbuf_body :: "u8 list \<Rightarrow> u32 \<Rightarrow> u32 \<Rightarrow> rx_step" where
  "process_rxbuf_body rxbuf rxlen rxoff =
     (if rxoff + ARSDK_FRAME_HEADER_SIZE > rxlen then Stop (Partial_header (rxlen - rxoff))
      else case read_headerbuf rxbuf (unat rxoff) of
        None \<Rightarrow> Stop Read_out_of_bounds
      | Some headerbuf \<Rightarrow>
          (let header = \<lparr>hdr_type = unat (headerbuf ! 0), hdr_id = unat (headerbuf ! 1),
                         hdr_seq = unat (headerbuf ! 2)\<rparr>;
               sz = decode_size headerbuf
           in if sz < ARSDK_FRAME_HEADER_SIZE \<or> rxoff + sz > rxlen then Stop Bad_frame
              else
                (let rxoff1 = rxoff + ARSDK_FRAME_HEADER_SIZE;
                     payloadlen = sz - ARSDK_FRAME_HEADER_SIZE;
                     payload = arsdk_transport_payload_init_with_data
                                 (if payloadlen = 0 then None else Some (unat rxoff1))
                                 (unat payloadlen)
                 in Dispatch (header, payload) (rxoff1 + payloadlen))))"

text \<open>
  The loop. \<open>out\<close> collects the frames dispatched so far, in order. The function is
  partial: \<open>None\<close> means that the loop never ends.
\<close>

partial_function (option) process_rxbuf_loop ::
  "u8 list \<Rightarrow> u32 \<Rightarrow> u32 \<Rightarrow> rx_frame list \<Rightarrow> (rx_frame list \<times> rx_stop) option" where
  "process_rxbuf_loop rxbuf rxlen rxoff out =
     (if rxoff < rxlen then
        (case process_rxbuf_body rxbuf rxlen rxoff of
           Stop r \<Rightarrow> Some (out, r)
         | Dispatch frame rxoff' \<Rightarrow> process_rxbuf_loop rxbuf rxlen rxoff' (out @ [frame]))
      else Some (out, Exhausted))"

declare process_rxbuf_loop.simps [code]

definition process_rxbuf :: "u8 list \<Rightarrow> u32 \<Rightarrow> (rx_frame list \<times> rx_stop) option" where
  "process_rxbuf rxbuf rxlen = process_rxbuf_loop rxbuf rxlen 0 []"

text \<open>
  The bytes a dispatched payload designates in the buffer, and whether all of them lie
  within the first \<open>L\<close> bytes.
\<close>

definition payload_bytes :: "u8 list \<Rightarrow> nat arsdk_transport_payload \<Rightarrow> u8 list" where
  "payload_bytes rxbuf payload =
     (case cdata payload of None \<Rightarrow> [] | Some off \<Rightarrow> take (len payload) (drop off rxbuf))"

definition payload_in_bounds :: "nat \<Rightarrow> nat arsdk_transport_payload \<Rightarrow> bool" where
  "payload_in_bounds L payload =
     (case cdata payload of None \<Rightarrow> len payload = 0 | Some off \<Rightarrow> off + len payload \<le> L)"

text \<open>
  A datagram of fourteen bytes: a frame of size 7, then a header whose size field is
  \<open>2^32 - 7\<close>. At \<open>rxoff = 7\<close> the sum \<open>rxoff + size\<close> wraps to 0, the check
  passes, and \<open>rxoff\<close> becomes \<open>7 + 7 + (size - 7) = 0\<close> again.
\<close>

definition spin_buf :: "u8 list" where
  "spin_buf = [1, 2, 3, 7, 0, 0, 0, 4, 5, 6, 0xF9, 0xFF, 0xFF, 0xFF]"

subsection \<open>Reading: socket\_read\<close>

text \<open>
  The operating system is a script of answers: each call of \<^verbatim>\<open>recvfrom\<close> or
  \<^verbatim>\<open>sendmsg\<close> takes the next pair of the value returned and the value of
  \<^verbatim>\<open>errno\<close> after the call. \<open>None\<close> means that the script ended while the loop
  still wanted to call again. \<open>rnd\<close> is what \<^verbatim>\<open>rand()\<close> returns if it is called.
\<close>

type_synonym syscall_result = "int \<times> int"

text \<open>\<^verbatim>\<open>do { readlen = recvfrom(...); } while (readlen < 0 && errno == -EINTR);\<close>\<close>

fun recvfrom_loop :: "syscall_result list \<Rightarrow> (int \<times> int \<times> syscall_result list) option" where
  "recvfrom_loop [] = None"
| "recvfrom_loop ((readlen, errno) # rest) =
     (if readlen < 0 \<and> errno = - EINTR then recvfrom_loop rest
      else Some (readlen, errno, rest))"

definition socket_read ::
  "arsdk_transport_net \<Rightarrow> int \<Rightarrow> nat \<Rightarrow> syscall_result list \<Rightarrow>
   (int \<times> arsdk_transport_net \<times> syscall_result list) option" where
  "socket_read self check_link_status rnd script =
     (case recvfrom_loop script of
        None \<Rightarrow> None
      | Some (readlen, errno, rest) \<Rightarrow>
          if readlen > 0 then
            (if rx_drop_ratio self \<noteq> 0 \<and> int (rnd mod 100) < rx_drop_ratio self
             then Some (- EAGAIN, self\<lparr>ulog := ulog self @ [LOGI_rx_drop readlen]\<rparr>, rest)
             else Some (readlen, self, rest))
          else if readlen = 0 then Some (0, self\<lparr>ulog := ulog self @ [LOGI_eof]\<rparr>, rest)
          else
            (let res = - errno;
                 link_status = arsdk_transport_get_link_status self
             in if \<not> ARSDK_WOULD_BLOCK (- res) \<and>
                   (check_link_status = 0 \<or> link_status = ARSDK_LINK_STATUS_OK)
                then
                  (let self1 = self\<lparr>ulog := ulog self @ [LOG_FD_ERRNO_read (- res)]\<rparr>
                   in if check_link_status \<noteq> 0
                      then Some (res, arsdk_transport_set_link_status self1 ARSDK_LINK_STATUS_KO,
                                 rest)
                      else Some (res, self1, rest))
                else Some (res, self, rest)))"

subsection \<open>Writing: socket\_write and send\_data\<close>

text \<open>\<^verbatim>\<open>do { writelen = sendmsg(...); } while (writelen < 0 && errno == EINTR);\<close>\<close>

fun sendmsg_loop :: "syscall_result list \<Rightarrow> (int \<times> int \<times> syscall_result list) option" where
  "sendmsg_loop [] = None"
| "sendmsg_loop ((writelen, errno) # rest) =
     (if writelen < 0 \<and> errno = EINTR then sendmsg_loop rest
      else Some (writelen, errno, rest))"

text \<open>
  A scatter-gather vector is a list of segments, each the bytes at \<^verbatim>\<open>iov_base\<close> and
  \<^verbatim>\<open>iov_len\<close>; the datagram is the first \<^verbatim>\<open>iov_len\<close> bytes of each, in order. In
  socket\_write, \<open>tot\<close> is the parameter \<^verbatim>\<open>total\<close>; what \<^verbatim>\<open>sendmsg\<close> returns comes
  from the script, whatever the vector holds.
\<close>

type_synonym iovec = "u8 list \<times> nat"

definition iov_bytes :: "iovec list \<Rightarrow> u8 list" where
  "iov_bytes iov = concat (map (\<lambda>(base, n). take n base) iov)"

definition socket_write ::
  "arsdk_transport_net \<Rightarrow> iovec list \<Rightarrow> nat \<Rightarrow> nat \<Rightarrow> syscall_result list \<Rightarrow>
   (int \<times> arsdk_transport_net \<times> syscall_result list) option" where
  "socket_write self iov tot rnd script =
     (if tx_drop_ratio self \<noteq> 0 \<and> int (rnd mod 100) < tx_drop_ratio self
      then Some (int tot, self\<lparr>ulog := ulog self @ [LOGI_tx_drop tot]\<rparr>, script)
      else case sendmsg_loop script of
        None \<Rightarrow> None
      | Some (writelen, errno, rest) \<Rightarrow>
          Some (if writelen \<ge> 0 then writelen else - errno, self, rest))"

text \<open>
  The seven bytes of the wire header: the three fields stored into \<^verbatim>\<open>uint8_t\<close>, then
  \<^verbatim>\<open>size & 0xff\<close>, \<^verbatim>\<open>(size >> 8) & 0xff\<close>, \<^verbatim>\<open>(size >> 16) & 0xff\<close> and
  \<^verbatim>\<open>(size >> 24) & 0xff\<close>.
\<close>

definition construct_header :: "arsdk_transport_header \<Rightarrow> u32 \<Rightarrow> u8 list" where
  "construct_header header sz =
     [of_nat (hdr_type header), of_nat (hdr_id header), of_nat (hdr_seq header),
      ucast (sz AND 0xff), ucast (drop_bit 8 sz AND 0xff),
      ucast (drop_bit 16 sz AND 0xff), ucast (drop_bit 24 sz AND 0xff)]"

text \<open>
  \<^verbatim>\<open>size = ARSDK_FRAME_HEADER_SIZE + extra_hdrlen + payload->len\<close>, stored in a
  \<^verbatim>\<open>uint32_t\<close>.
\<close>

definition frame_size :: "nat \<Rightarrow> u8 list arsdk_transport_payload \<Rightarrow> u32" where
  "frame_size extra_hdrlen payload = of_nat (7 + extra_hdrlen + len payload)"

text \<open>
  The vector of up to three segments. A segment with a positive length has a pointer
  that is not \<^verbatim>\<open>NULL\<close>: send\_data has checked it before.
\<close>

definition setup_iov ::
  "u8 list \<Rightarrow> u8 list option \<Rightarrow> nat \<Rightarrow> u8 list arsdk_transport_payload \<Rightarrow> iovec list" where
  "setup_iov headerbuf extra_hdr extra_hdrlen payload =
     [(headerbuf, 7)] @
     (if extra_hdrlen > 0
      then (case extra_hdr of None \<Rightarrow> [] | Some e \<Rightarrow> [(e, extra_hdrlen)]) else []) @
     (if len payload > 0
      then (case cdata payload of None \<Rightarrow> [] | Some d \<Rightarrow> [(d, len payload)]) else [])"

text \<open>The bytes a payload of the send path designates: \<^verbatim>\<open>len\<close> bytes at \<^verbatim>\<open>cdata\<close>.\<close>

definition tx_payload_bytes :: "u8 list arsdk_transport_payload \<Rightarrow> u8 list" where
  "tx_payload_bytes payload =
     (case cdata payload of None \<Rightarrow> [] | Some d \<Rightarrow> take (len payload) d)"

text \<open>
  \<^verbatim>\<open>arsdk_transport_net_send_data\<close>. The transport itself is the state \<open>self\<close>;
  \<open>header\<close>, \<open>payload\<close> and \<open>extra_hdr\<close> are pointers that may be \<^verbatim>\<open>NULL\<close>. The
  result is the \<^verbatim>\<open>int\<close> returned, the state and the rest of the script. Of
  \<^verbatim>\<open>ARSDK_RETURN_ERR_IF_FAILED\<close>, a macro of the library, only the return of its
  second argument is kept. The branch for Windows is left out.
\<close>

definition arsdk_transport_net_send_data ::
  "arsdk_transport_net \<Rightarrow> arsdk_transport_header option \<Rightarrow>
   u8 list arsdk_transport_payload option \<Rightarrow> u8 list option \<Rightarrow> nat \<Rightarrow>
   nat \<Rightarrow> syscall_result list \<Rightarrow> (int \<times> arsdk_transport_net \<times> syscall_result list) option" where
  "arsdk_transport_net_send_data self header payload extra_hdr extra_hdrlen rnd script =
     (case header of
        None \<Rightarrow> Some (- EINVAL, self, script)
      | Some hdr \<Rightarrow>
     (case payload of
        None \<Rightarrow> Some (- EINVAL, self, script)
      | Some pl \<Rightarrow>
          if \<not> (extra_hdrlen = 0 \<or> extra_hdr \<noteq> None) then Some (- EINVAL, self, script)
          else if \<not> (len pl = 0 \<or> cdata pl \<noteq> None) then Some (- EINVAL, self, script)
          else if started self = 0 \<or> data_sock_fd self < 0 then Some (- EPIPE, self, script)
          else
            (let sz = frame_size extra_hdrlen pl;
                 headerbuf = construct_header hdr sz;
                 self1 = arsdk_transport_log_cmd self headerbuf ARSDK_CMD_DIR_TX;
                 iov = setup_iov headerbuf extra_hdr extra_hdrlen pl
             in case socket_write self1 iov (unat sz) rnd script of
                  None \<Rightarrow> None
                | Some (writelen, self2, rest) \<Rightarrow>
                    (let link_status = arsdk_transport_get_link_status self2
                     in if writelen < 0 then
                          (let res = writelen
                           in if res = - ENOBUFS then
                                Some (0, self2\<lparr>tx_fail := tx_fail self2 + 1,
                                              ulog := ulog self2 @ [LOGW_sendmsg sz (- res)]\<rparr>,
                                      rest)
                              else if \<not> ARSDK_WOULD_BLOCK (- res) \<and>
                                      link_status = ARSDK_LINK_STATUS_OK then
                                Some (res,
                                      arsdk_transport_set_link_status
                                        (self2\<lparr>ulog := ulog self2 @
                                                  [LOG_FD_ERRNO_sendmsg (- res)]\<rparr>)
                                        ARSDK_LINK_STATUS_KO,
                                      rest)
                              else Some (res, self2, rest))
                        else if (word_of_int writelen :: u32) \<noteq> sz then
                          Some (- EAGAIN,
                                self2\<lparr>ulog := ulog self2 @
                                         [LOGE_partial_write (word_of_int writelen) sz]\<rparr>, rest)
                        else if 0 <s tx_fail self2 then
                          Some (0, self2\<lparr>tx_fail := 0,
                                        ulog := ulog self2 @
                                          [LOGI_succeed_after sz (tx_fail self2)]\<rparr>, rest)
                        else Some (0, self2, rest)))))"

subsection \<open>A transport, a header and a payload to run the send path on\<close>

text \<open>
  A started transport with an open socket, no simulated loss, no failure counted and the
  link OK; a header; a payload of three bytes. With no extra header the frame has ten
  bytes.
\<close>

definition demo_self :: arsdk_transport_net where
  "demo_self =
     \<lparr>started = 1, data_sock_fd = 3, rx_drop_ratio = 0, tx_drop_ratio = 0, tx_fail = 0,
      link_status = ARSDK_LINK_STATUS_OK, cmd_log = [], ulog = []\<rparr>"

definition demo_header :: arsdk_transport_header where
  "demo_header = \<lparr>hdr_type = 2, hdr_id = 11, hdr_seq = 255\<rparr>"

definition demo_payload :: "u8 list arsdk_transport_payload" where
  "demo_payload = \<lparr>cdata = Some [9, 8, 7], len = 3\<rparr>"

definition demo_headerbuf :: "u8 list" where
  "demo_headerbuf = [2, 11, 255, 10, 0, 0, 0]"

definition demo_iov :: "iovec list" where
  "demo_iov = [(demo_headerbuf, 7), ([9, 8, 7], 3)]"

section \<open>Helper lemmas\<close>

lemmas transport_id_defs =
  ARSDK_TRANSPORT_ID_MAX_def ARSDK_TRANSPORT_ID_MAX_BLE_def
  ARSDK_TRANSPORT_ID_PING_def ARSDK_TRANSPORT_ID_PONG_def
  ARSDK_TRANSPORT_ID_C2D_CMD_NOACK_def ARSDK_TRANSPORT_ID_C2D_CMD_WITHACK_def
  ARSDK_TRANSPORT_ID_C2D_CMD_HIGHPRIO_def
  ARSDK_TRANSPORT_ID_D2C_CMD_NOACK_def ARSDK_TRANSPORT_ID_D2C_CMD_WITHACK_def
  ARSDK_TRANSPORT_ID_D2C_CMD_NOACK_BLE_def ARSDK_TRANSPORT_ID_D2C_CMD_WITHACK_BLE_def
  ARSDK_TRANSPORT_ID_ACKOFF_def ARSDK_TRANSPORT_ID_ACKOFF_BLE_def
  ARSDK_TRANSPORT_ID_C2D_CMD_ACK_def ARSDK_TRANSPORT_ID_C2D_CMD_ACK_BLE_def
  ARSDK_TRANSPORT_ID_D2C_CMD_ACK_def ARSDK_TRANSPORT_ID_D2C_CMD_HIGHPRIO_ACK_def
  ARSDK_TRANSPORT_ID_D2C_CMD_ACK_BLE_def ARSDK_TRANSPORT_ID_D2C_CMD_HIGHPRIO_ACK_BLE_def

lemmas errno_defs = EINTR_def EAGAIN_def EWOULDBLOCK_def EINVAL_def EPIPE_def ENOBUFS_def

lemmas rx_body_defs =
  process_rxbuf_body_def read_headerbuf_def decode_size_def ARSDK_FRAME_HEADER_SIZE_def
  arsdk_transport_payload_init_with_data_def

lemmas send_data_defs =
  arsdk_transport_net_send_data_def arsdk_transport_get_link_status_def
  arsdk_transport_set_link_status_def arsdk_transport_log_cmd_def Let_def

subsection \<open>Naturals below \<open>2 ^ 32\<close> as 32-bit words\<close>

lemma unat_of_nat_u32: "n < 2 ^ 32 \<Longrightarrow> unat (of_nat n :: u32) = n"
  by (simp add: unat_of_nat)

lemma of_nat_u32_less: "a < 2 ^ 32 \<Longrightarrow> b < 2 ^ 32 \<Longrightarrow> (of_nat a :: u32) < of_nat b \<longleftrightarrow> a < b"
  by (simp add: word_less_nat_alt unat_of_nat_u32)

lemma of_nat_u32_not_less:
  "a < 2 ^ 32 \<Longrightarrow> b < 2 ^ 32 \<Longrightarrow> b \<le> a \<Longrightarrow> \<not> (of_nat a :: u32) < of_nat b"
  by (simp add: of_nat_u32_less)

lemma of_nat_u32_eq_0: "n < 2 ^ 32 \<Longrightarrow> (of_nat n :: u32) = 0 \<longleftrightarrow> n = 0"
  using unat_of_nat_u32 [of n] by (auto simp: unat_eq_0 [symmetric] simp del: unat_eq_0)

lemma unat_of_nat_u8: "n \<le> 255 \<Longrightarrow> unat (of_nat n :: u8) = n"
  by (simp add: unat_of_nat)

subsection \<open>The size field, written and read back\<close>

lemma ff_mask: "(0xff :: u32) = mask 8"
  by (simp add: mask_eq_exp_minus_1)

lemma ucast_and_ff: "(ucast (x AND 0xff :: u32) :: u8) = ucast x"
  unfolding ff_mask
  by (rule bit_word_eqI) (simp add: bit_simps)

lemma decode_size_construct_header: "decode_size (construct_header header sz) = sz"
  unfolding decode_size_def construct_header_def ucast_and_ff
  apply simp
  apply (rule bit_word_eqI)
  subgoal for n
    apply (simp add: bit_simps)
    apply (cases "n < 8"; cases "n < 16"; cases "n < 24"; simp add: not_less; arith)
    done
  done

subsection \<open>One turn of the loop on a well-formed frame\<close>

text \<open>
  The buffer holds, after \<open>pre\<close>, a header of seven bytes whose size field is
  \<open>7 + length p\<close>, then \<open>p\<close>; \<open>rxlen\<close> is the length of the buffer. The turn dispatches
  that frame and moves \<open>rxoff\<close> behind it.
\<close>

lemma body_well_formed_frame:
  fixes pre p post :: "u8 list" and headerbuf :: "u8 list"
  assumes hb: "headerbuf = [t, i, s, b3, b4, b5, b6]"
    and sz: "decode_size headerbuf = of_nat (7 + length p)"
    and buf: "rxbuf = pre @ headerbuf @ p @ post"
    and L: "length rxbuf < 2 ^ 32"
  shows "process_rxbuf_body rxbuf (of_nat (length rxbuf)) (of_nat (length pre)) =
     Dispatch (\<lparr>hdr_type = unat t, hdr_id = unat i, hdr_seq = unat s\<rparr>,
               \<lparr>cdata = (if p = [] then None else Some (length pre + 7)), len = length p\<rparr>)
              (of_nat (length pre + 7 + length p))"
proof -
  have len: "length rxbuf = length pre + 7 + length p + length post"
    by (simp add: buf hb)
  have n1: "length pre + 7 < 2 ^ 32" and n2: "7 + length p < 2 ^ 32"
    and n3: "length pre + (7 + length p) < 2 ^ 32" and n4: "length p < 2 ^ 32"
    and n5: "length pre < 2 ^ 32"
    using L len by simp_all
  have off7: "(of_nat (length pre) :: u32) + 7 = of_nat (length pre + 7)"
    by simp
  have c1: "\<not> (of_nat (length pre) :: u32) + 7 > of_nat (length rxbuf)"
    unfolding off7 by (rule of_nat_u32_not_less) (use L n1 len in simp_all)
  have rd: "read_headerbuf rxbuf (unat (of_nat (length pre) :: u32)) = Some headerbuf"
    using len by (simp add: read_headerbuf_def unat_of_nat_u32 [OF n5] buf hb)
  have c2: "\<not> (of_nat (7 + length p) :: u32) < 7"
    using of_nat_u32_not_less [OF n2, of 7] by simp
  have offsz: "(of_nat (length pre) :: u32) + of_nat (7 + length p) =
      of_nat (length pre + (7 + length p))"
    by simp
  have c3: "\<not> (of_nat (length pre) :: u32) + of_nat (7 + length p) > of_nat (length rxbuf)"
    unfolding offsz by (rule of_nat_u32_not_less) (use L n3 len in simp_all)
  have z: "(of_nat (length p) :: u32) = 0 \<longleftrightarrow> p = []"
    using of_nat_u32_eq_0 [OF n4] by simp
  have u1: "unat ((of_nat (length pre) :: u32) + 7) = length pre + 7"
    unfolding off7 by (rule unat_of_nat_u32 [OF n1])
  have u2: "unat (of_nat (length p) :: u32) = length p"
    by (rule unat_of_nat_u32 [OF n4])
  show ?thesis
    using c1 c2 c3
    by (simp add: process_rxbuf_body_def ARSDK_FRAME_HEADER_SIZE_def rd [unfolded hb]
        sz [unfolded hb] Let_def z u1 u2 hb arsdk_transport_payload_init_with_data_def)
qed

lemma loop_well_formed_frame:
  fixes pre p post :: "u8 list" and headerbuf :: "u8 list"
  assumes hb: "headerbuf = [t, i, s, b3, b4, b5, b6]"
    and sz: "decode_size headerbuf = of_nat (7 + length p)"
    and buf: "rxbuf = pre @ headerbuf @ p @ post"
    and L: "length rxbuf < 2 ^ 32"
  shows "process_rxbuf_loop rxbuf (of_nat (length rxbuf)) (of_nat (length pre)) out =
     process_rxbuf_loop rxbuf (of_nat (length rxbuf)) (of_nat (length pre + 7 + length p))
       (out @ [(\<lparr>hdr_type = unat t, hdr_id = unat i, hdr_seq = unat s\<rparr>,
               \<lparr>cdata = (if p = [] then None else Some (length pre + 7)), len = length p\<rparr>)])"
proof -
  have "length pre < length rxbuf" by (simp add: buf hb)
  then have lt: "(of_nat (length pre) :: u32) < of_nat (length rxbuf)"
    using L by (simp add: of_nat_u32_less)
  show ?thesis
    by (subst process_rxbuf_loop.simps)
       (simp only: lt if_True body_well_formed_frame [OF hb sz buf L] rx_step.case)
qed

lemma loop_exhausted:
  "process_rxbuf_loop rxbuf rxlen rxlen out = Some (out, Exhausted)"
  by (subst process_rxbuf_loop.simps) simp

lemma iov_bytes_no_extra:
  assumes "len payload = 0 \<or> (\<exists>d. cdata payload = Some d \<and> len payload \<le> length d)"
    and "length headerbuf = 7"
  shows "iov_bytes (setup_iov headerbuf None 0 payload) = headerbuf @ tx_payload_bytes payload"
    and "length (tx_payload_bytes payload) = len payload"
  using assms by (auto simp: iov_bytes_def setup_iov_def tx_payload_bytes_def split: option.splits)

subsection \<open>The reads of the decoder\<close>

text \<open>
  On a buffer of at most \<open>2^32 - 8\<close> bytes whose length is \<open>rxlen\<close>, a turn of the loop
  reads its seven header bytes inside the buffer: there \<open>rxoff + 7\<close> does not wrap.
\<close>

lemma header_reads_in_bounds:
  assumes L: "length rxbuf \<le> 4294967288" and rl: "rxlen = of_nat (length rxbuf)"
    and lt: "rxoff < rxlen"
  shows "process_rxbuf_body rxbuf rxlen rxoff \<noteq> Stop Read_out_of_bounds"
proof (cases "rxoff + ARSDK_FRAME_HEADER_SIZE > rxlen")
  case True
  then show ?thesis by (simp add: process_rxbuf_body_def)
next
  case False
  have ul: "unat rxlen = length rxbuf"
    using L by (simp add: rl unat_of_nat)
  have "unat rxoff < length rxbuf"
    using lt ul by (simp add: word_less_nat_alt)
  with L have nowrap: "unat rxoff + 7 < 2 ^ 32" by simp
  then have "unat (rxoff + 7) = unat rxoff + 7"
    by (simp add: unat_word_ariths)
  with False ul have "unat rxoff + 7 \<le> length rxbuf"
    by (simp add: ARSDK_FRAME_HEADER_SIZE_def word_less_nat_alt)
  then show ?thesis
    using False
    by (simp add: process_rxbuf_body_def read_headerbuf_def Let_def)
qed

subsection \<open>A datagram on which the loop turns forever\<close>

lemma spin_body_0:
  "process_rxbuf_body spin_buf 14 0 =
     Dispatch (\<lparr>hdr_type = 1, hdr_id = 2, hdr_seq = 3\<rparr>, \<lparr>cdata = None, len = 0\<rparr>) 7"
  by (simp add: spin_buf_def rx_body_defs)

lemma spin_body_7:
  "process_rxbuf_body spin_buf 14 7 =
     Dispatch (\<lparr>hdr_type = 4, hdr_id = 5, hdr_seq = 6\<rparr>,
               \<lparr>cdata = Some 14, len = 4294967282\<rparr>) 0"
  by (simp add: spin_buf_def rx_body_defs)

lemma spin_never_returns:
  assumes "process_rxbuf_loop rxbuf rxlen rxoff out = Some y"
  shows "\<not> (rxbuf = spin_buf \<and> rxlen = 14 \<and> (rxoff = 0 \<or> rxoff = 7))"
proof (rule process_rxbuf_loop.raw_induct
    [where P = "\<lambda>rxbuf rxlen rxoff out y.
       \<not> (rxbuf = spin_buf \<and> rxlen = 14 \<and> (rxoff = 0 \<or> rxoff = 7))", OF _ assms])
  fix f :: "u8 list \<Rightarrow> u32 \<Rightarrow> u32 \<Rightarrow> rx_frame list \<Rightarrow> (rx_frame list \<times> rx_stop) option"
  fix rxbuf rxlen rxoff out y
  assume IH: "\<And>rxbuf rxlen rxoff out y. f rxbuf rxlen rxoff out = Some y \<Longrightarrow>
     \<not> (rxbuf = spin_buf \<and> rxlen = 14 \<and> (rxoff = 0 \<or> rxoff = 7))"
  assume body: "(if rxoff < rxlen then
        (case process_rxbuf_body rxbuf rxlen rxoff of
           Stop r \<Rightarrow> Some (out, r)
         | Dispatch frame rxoff' \<Rightarrow> f rxbuf rxlen rxoff' (out @ [frame]))
      else Some (out, Exhausted)) = Some y"
  show "\<not> (rxbuf = spin_buf \<and> rxlen = 14 \<and> (rxoff = 0 \<or> rxoff = 7))"
  proof
    assume a: "rxbuf = spin_buf \<and> rxlen = 14 \<and> (rxoff = 0 \<or> rxoff = 7)"
    then consider "rxoff = 0" | "rxoff = 7" by blast
    then show False
    proof cases
      case 1
      with a body have "f spin_buf 14 7
          (out @ [(\<lparr>hdr_type = 1, hdr_id = 2, hdr_seq = 3\<rparr>, \<lparr>cdata = None, len = 0\<rparr>)]) =
          Some y"
        by (simp add: spin_body_0)
      from IH [OF this] show False by simp
    next
      case 2
      with a body have "f spin_buf 14 0
          (out @ [(\<lparr>hdr_type = 4, hdr_id = 5, hdr_seq = 6\<rparr>,
                   \<lparr>cdata = Some 14, len = 4294967282\<rparr>)]) = Some y"
        by (simp add: spin_body_7)
      from IH [OF this] show False by simp
    qed
  qed
qed

subsection \<open>The loop around recvfrom\<close>

text \<open>After a call that leaves a positive \<^verbatim>\<open>errno\<close> the loop never calls again.\<close>

lemma recvfrom_loop_positive_errno:
  "0 < errno \<Longrightarrow> recvfrom_loop ((readlen, errno) # rest) = Some (readlen, errno, rest)"
  by (simp add: EINTR_def)

subsection \<open>socket\_write and the state\<close>

lemma socket_write_cmd_log:
  "socket_write (self\<lparr>cmd_log := c\<rparr>) iov tot rnd script =
     map_option (\<lambda>(w, s, r). (w, s\<lparr>cmd_log := c\<rparr>, r)) (socket_write self iov tot rnd script)"
  by (simp add: socket_write_def split: option.splits)

lemma socket_write_not_full:
  assumes "socket_write self iov tot rnd script = Some (w, s1, rest)" and "w \<noteq> int tot"
  shows "s1 = self"
  using assms by (auto simp: socket_write_def split: if_splits option.splits)

lemma socket_write_state:
  assumes "socket_write self iov tot rnd script = Some (w, s1, rest)"
  shows "s1 = self \<or> s1 = self\<lparr>ulog := ulog self @ [LOGI_tx_drop tot]\<rparr>"
  using assms by (auto simp: socket_write_def split: if_splits option.splits)

lemma socket_write_negative:
  assumes "socket_write self iov tot rnd script = Some (w, s1, rest)" and "w < 0"
  shows "s1 = self"
  using assms by (auto simp: socket_write_def split: if_splits option.splits)

text \<open>Adding one to an \<^verbatim>\<open>int\<close> below the largest one does not wrap.\<close>

lemma sint_succ_u32:
  fixes w :: "32 word"
  assumes "sint w < 2147483647"
  shows "sint (w + 1) = sint w + 1"
proof -
  have "- (2 ^ 31) \<le> sint w" using sint_ge [of w] by simp
  then show ?thesis
    using assms by (simp add: sint_word_ariths signed_take_bit_int_eq_self)
qed

subsection \<open>The transport, header and payload of the examples\<close>

lemma demo_frame:
  "frame_size 0 demo_payload = 10"
  "construct_header demo_header 10 = demo_headerbuf"
  "setup_iov demo_headerbuf None 0 demo_payload = demo_iov"
  by (simp_all add: frame_size_def construct_header_def setup_iov_def demo_payload_def
      demo_header_def demo_headerbuf_def demo_iov_def)

lemma unat_10: "unat (10 :: u32) = 10"
  by simp

lemma demo_args:
  "(0 :: nat) = 0 \<or> (None :: u8 list option) \<noteq> None"
  "len demo_payload = 0 \<or> cdata demo_payload \<noteq> None"
  by (simp_all add: demo_payload_def)

section \<open>The claims\<close>

text \<open>
  C1, at a datagram the decoder can receive. The second header of these fourteen bytes
  carries the size \<open>2^32 - 1\<close>, so that \<open>offset + size\<close> exceeds the length. In
  \<^verbatim>\<open>uint32_t\<close> the sum \<open>7 + size\<close> wraps to 6, the check \<^verbatim>\<open>rxoff + size > rxlen\<close>
  passes, and the frame is dispatched with a payload of \<open>2^32 - 8\<close> bytes at index 14,
  outside the buffer. The claim that no frame is forwarded for a corrupted size field
  fails on the code here.
\<close>

theorem process_rxbuf_wrapped_size_forwarded:
  "process_rxbuf [1, 2, 3, 7, 0, 0, 0, 4, 5, 6, 0xFF, 0xFF, 0xFF, 0xFF] 14 =
     Some ([(\<lparr>hdr_type = 1, hdr_id = 2, hdr_seq = 3\<rparr>, \<lparr>cdata = None, len = 0\<rparr>),
            (\<lparr>hdr_type = 4, hdr_id = 5, hdr_seq = 6\<rparr>,
             \<lparr>cdata = Some 14, len = 4294967288\<rparr>)], Bad_frame) \<and>
   \<not> payload_in_bounds 14 \<lparr>cdata = Some 14, len = 4294967288\<rparr>"
  by (simp add: process_rxbuf_def process_rxbuf_loop.simps rx_body_defs payload_in_bounds_def)

text \<open>
  C2: encoding a frame and decoding it. For a header whose three fields are at most 255
  and a payload of \<open>len\<close> readable bytes with \<open>7 + len < 2^32\<close>, the datagram that
  send\_data builds without an extra header has \<open>7 + len\<close> bytes, and process\_rxbuf on
  it dispatches exactly one frame, with the same header, whose payload designates the
  bytes of the original payload; then the buffer is used up.
\<close>

theorem encode_decode_round_trip:
  assumes t: "hdr_type header \<le> 255" and i: "hdr_id header \<le> 255" and s: "hdr_seq header \<le> 255"
    and pl: "len payload = 0 \<or> (\<exists>d. cdata payload = Some d \<and> len payload \<le> length d)"
    and n: "7 + len payload < 2 ^ 32"
  shows "let wire = iov_bytes (setup_iov (construct_header header (frame_size 0 payload))
                      None 0 payload);
             rx = \<lparr>cdata = (if len payload = 0 then None else Some 7), len = len payload\<rparr>
         in length wire = 7 + len payload \<and>
            process_rxbuf wire (of_nat (length wire)) = Some ([(header, rx)], Exhausted) \<and>
            payload_bytes wire rx = tx_payload_bytes payload"
proof -
  define p where "p = tx_payload_bytes payload"
  define hb where "hb = construct_header header (frame_size 0 payload)"
  define wire where "wire = iov_bytes (setup_iov hb None 0 payload)"
  have hb7: "length hb = 7" by (simp add: hb_def construct_header_def)
  have lp: "length p = len payload" and w: "wire = hb @ p"
    using iov_bytes_no_extra [OF pl hb7] by (simp_all add: p_def wire_def)
  have lw: "length wire = 7 + len payload" by (simp add: w hb7 lp)
  have hbl: "hb = [of_nat (hdr_type header), of_nat (hdr_id header), of_nat (hdr_seq header),
      ucast (frame_size 0 payload AND 0xff), ucast (drop_bit 8 (frame_size 0 payload) AND 0xff),
      ucast (drop_bit 16 (frame_size 0 payload) AND 0xff),
      ucast (drop_bit 24 (frame_size 0 payload) AND 0xff)]"
    by (simp add: hb_def construct_header_def)
  have sz: "decode_size hb = of_nat (7 + length p)"
    by (simp add: hb_def decode_size_construct_header frame_size_def lp)
  have buf: "wire = [] @ hb @ p @ []" by (simp add: w)
  have L: "length wire < 2 ^ 32" using n lw by simp
  have hdr: "\<lparr>hdr_type = unat (of_nat (hdr_type header) :: u8),
              hdr_id = unat (of_nat (hdr_id header) :: u8),
              hdr_seq = unat (of_nat (hdr_seq header) :: u8)\<rparr> = header"
    by (simp add: unat_of_nat_u8 t i s)
  have pe: "p = [] \<longleftrightarrow> len payload = 0" using lp by auto
  have "process_rxbuf wire (of_nat (length wire)) =
      process_rxbuf_loop wire (of_nat (length wire)) (of_nat (length ([] :: u8 list))) []"
    by (simp add: process_rxbuf_def)
  also have "\<dots> = process_rxbuf_loop wire (of_nat (length wire)) (of_nat (length wire))
      [(header, \<lparr>cdata = (if len payload = 0 then None else Some 7), len = len payload\<rparr>)]"
    by (subst loop_well_formed_frame [OF hbl sz buf L]) (simp add: hdr pe lp lw)
  also have "\<dots> = Some ([(header, \<lparr>cdata = (if len payload = 0 then None else Some 7),
      len = len payload\<rparr>)], Exhausted)"
    by (rule loop_exhausted)
  finally have dec: "process_rxbuf wire (of_nat (length wire)) =
     Some ([(header, \<lparr>cdata = (if len payload = 0 then None else Some 7),
      len = len payload\<rparr>)], Exhausted)" .
  have pb: "payload_bytes wire \<lparr>cdata = (if len payload = 0 then None else Some 7),
      len = len payload\<rparr> = p"
    using lp pe by (auto simp: payload_bytes_def w hb7)
  show ?thesis
    using lw dec pb by (simp add: Let_def wire_def [symmetric] hb_def [symmetric] p_def)
qed

theorem encode_decode_round_trip_witness:
  "hdr_type \<lparr>hdr_type = 2, hdr_id = 11, hdr_seq = 255\<rparr> \<le> 255 \<and>
   hdr_id \<lparr>hdr_type = 2, hdr_id = 11, hdr_seq = 255\<rparr> \<le> 255 \<and>
   hdr_seq \<lparr>hdr_type = 2, hdr_id = 11, hdr_seq = 255\<rparr> \<le> 255 \<and>
   (len \<lparr>cdata = Some [9, 8, 7 :: u8], len = 3\<rparr> = 0 \<or>
    (\<exists>d. cdata \<lparr>cdata = Some [9, 8, 7 :: u8], len = 3\<rparr> = Some d \<and>
         len \<lparr>cdata = Some [9, 8, 7 :: u8], len = 3\<rparr> \<le> length d)) \<and>
   7 + len \<lparr>cdata = Some [9, 8, 7 :: u8], len = 3\<rparr> < 2 ^ 32 \<and>
   process_rxbuf [2, 11, 255, 10, 0, 0, 0, 9, 8, 7] 10 =
     Some ([(\<lparr>hdr_type = 2, hdr_id = 11, hdr_seq = 255\<rparr>, \<lparr>cdata = Some 7, len = 3\<rparr>)],
           Exhausted) \<and>
   payload_bytes [2, 11, 255, 10, 0, 0, 0, 9, 8, 7] \<lparr>cdata = Some 7, len = 3\<rparr> = [9, 8, 7]"
proof -
  have w: "iov_bytes (setup_iov (construct_header \<lparr>hdr_type = 2, hdr_id = 11, hdr_seq = 255\<rparr>
        (frame_size 0 \<lparr>cdata = Some [9, 8, 7 :: u8], len = 3\<rparr>)) None 0
        \<lparr>cdata = Some [9, 8, 7 :: u8], len = 3\<rparr>) = [2, 11, 255, 10, 0, 0, 0, 9, 8, 7]"
    by (simp add: iov_bytes_def setup_iov_def construct_header_def frame_size_def)
  have p: "tx_payload_bytes \<lparr>cdata = Some [9, 8, 7 :: u8], len = 3\<rparr> = [9, 8, 7]"
    by (simp add: tx_payload_bytes_def)
  show ?thesis
    using encode_decode_round_trip
      [of "\<lparr>hdr_type = 2, hdr_id = 11, hdr_seq = 255\<rparr>" "\<lparr>cdata = Some [9, 8, 7 :: u8], len = 3\<rparr>"]
    by (simp add: w p Let_def)
qed

text \<open>
  C3, at a datagram the decoder can receive: on these fourteen bytes the loop of
  process\_rxbuf never ends. The size field \<open>2^32 - 7\<close> of the second header makes
  \<^verbatim>\<open>rxoff + size\<close> wrap, the frame is accepted, and \<open>rxoff\<close> goes back from 7 to 0.
  The claim that the loop ends on every input fails on the code here.
\<close>

theorem process_rxbuf_spins:
  "process_rxbuf [1, 2, 3, 7, 0, 0, 0, 4, 5, 6, 0xF9, 0xFF, 0xFF, 0xFF] 14 = None"
proof (cases "process_rxbuf_loop spin_buf 14 0 []")
  case None
  then show ?thesis by (simp add: process_rxbuf_def spin_buf_def)
next
  case (Some y)
  from spin_never_returns [OF this] show ?thesis by simp
qed

text \<open>
  C4, at an execution of socket\_read: \<^verbatim>\<open>recvfrom\<close> fails with \<^verbatim>\<open>EINTR\<close> and would
  return ten bytes at the next call. The loop compares \<^verbatim>\<open>errno\<close> with \<^verbatim>\<open>-EINTR\<close>,
  which a positive \<^verbatim>\<open>errno\<close> never equals, so there is no second call: the caller
  gets \<^verbatim>\<open>-EINTR\<close>, the error is logged and the link goes to KO. The claim that the
  caller sees the later success fails on the code here.
\<close>

theorem socket_read_eintr_not_retried:
  "socket_read
     \<lparr>started = 1, data_sock_fd = 3, rx_drop_ratio = 0, tx_drop_ratio = 0, tx_fail = 0,
      link_status = ARSDK_LINK_STATUS_OK, cmd_log = [], ulog = []\<rparr>
     1 0 [(- 1, EINTR), (10, 0)] =
   Some (- EINTR,
     \<lparr>started = 1, data_sock_fd = 3, rx_drop_ratio = 0, tx_drop_ratio = 0, tx_fail = 0,
      link_status = ARSDK_LINK_STATUS_KO, cmd_log = [], ulog = [LOG_FD_ERRNO_read EINTR]\<rparr>,
     [(10, 0)])"
  by (simp add: socket_read_def ARSDK_WOULD_BLOCK_def errno_defs
      arsdk_transport_get_link_status_def arsdk_transport_set_link_status_def)

text \<open>
  C5: a partial write is an error. On a started transport with an open socket and
  arguments that pass the checks, whatever the link status: when the write of
  socket\_write returns a count that is not negative and is below the computed frame
  size, send\_data returns \<^verbatim>\<open>-EAGAIN\<close>, which is negative, and its only log entry is the
  error \<^verbatim>\<open>Partial write\<close>; link status and failure counter stay as they were.
\<close>

theorem partial_write_is_error:
  assumes st: "started self \<noteq> 0" and fd: "0 \<le> data_sock_fd self"
    and eh: "extra_hdrlen = 0 \<or> extra_hdr \<noteq> None"
    and pl: "len payload = 0 \<or> cdata payload \<noteq> None"
    and wr: "socket_write self
               (setup_iov (construct_header header (frame_size extra_hdrlen payload))
                  extra_hdr extra_hdrlen payload)
               (unat (frame_size extra_hdrlen payload)) rnd script = Some (writelen, self1, rest)"
    and w0: "0 \<le> writelen"
    and w1: "writelen < int (unat (frame_size extra_hdrlen payload))"
  shows "arsdk_transport_net_send_data self (Some header) (Some payload) extra_hdr extra_hdrlen
           rnd script =
         Some (- EAGAIN,
               self\<lparr>cmd_log := cmd_log self @
                        [(ARSDK_CMD_DIR_TX,
                          construct_header header (frame_size extra_hdrlen payload))],
                    ulog := ulog self @
                        [LOGE_partial_write (word_of_int writelen)
                           (frame_size extra_hdrlen payload)]\<rparr>,
               rest) \<and>
         - EAGAIN < 0 \<and>
         is_error_log (LOGE_partial_write (word_of_int writelen)
                         (frame_size extra_hdrlen payload))"
proof -
  have s1: "self1 = self"
    using socket_write_not_full [OF wr] w1 by simp
  have "uint (frame_size extra_hdrlen payload) < 4294967296"
    using uint_lt2p [of "frame_size extra_hdrlen payload"] by simp
  with w1 have "writelen < 4294967296" by simp
  with w0 have "uint (word_of_int writelen :: u32) = writelen"
    by (simp add: uint_word_of_int take_bit_eq_mod)
  then have ne: "(word_of_int writelen :: u32) \<noteq> frame_size extra_hdrlen payload"
    using w1 by (auto simp: uint_nat [symmetric])
  show ?thesis
    using st fd eh pl w0 ne
    by (simp add: send_data_defs socket_write_cmd_log wr [unfolded s1] EAGAIN_def)
qed

theorem partial_write_is_error_witness:
  "started \<lparr>started = 1, data_sock_fd = 3, rx_drop_ratio = 0, tx_drop_ratio = 0, tx_fail = 0,
      link_status = ARSDK_LINK_STATUS_KO, cmd_log = [], ulog = []\<rparr> \<noteq> 0 \<and>
   0 \<le> data_sock_fd \<lparr>started = 1, data_sock_fd = 3, rx_drop_ratio = 0, tx_drop_ratio = 0,
      tx_fail = 0, link_status = ARSDK_LINK_STATUS_KO, cmd_log = [], ulog = []\<rparr> \<and>
   socket_write \<lparr>started = 1, data_sock_fd = 3, rx_drop_ratio = 0, tx_drop_ratio = 0,
      tx_fail = 0, link_status = ARSDK_LINK_STATUS_KO, cmd_log = [], ulog = []\<rparr>
     [([2, 11, 255, 10, 0, 0, 0], 7), ([9, 8, 7], 3)] 10 0 [(4, 0)] =
     Some (4, \<lparr>started = 1, data_sock_fd = 3, rx_drop_ratio = 0, tx_drop_ratio = 0,
      tx_fail = 0, link_status = ARSDK_LINK_STATUS_KO, cmd_log = [], ulog = []\<rparr>, []) \<and>
   (0 :: int) \<le> 4 \<and> (4 :: int) < 10 \<and>
   arsdk_transport_net_send_data
     \<lparr>started = 1, data_sock_fd = 3, rx_drop_ratio = 0, tx_drop_ratio = 0, tx_fail = 0,
      link_status = ARSDK_LINK_STATUS_KO, cmd_log = [], ulog = []\<rparr>
     (Some \<lparr>hdr_type = 2, hdr_id = 11, hdr_seq = 255\<rparr>)
     (Some \<lparr>cdata = Some [9, 8, 7], len = 3\<rparr>) None 0 0 [(4, 0)] =
   Some (- EAGAIN,
     \<lparr>started = 1, data_sock_fd = 3, rx_drop_ratio = 0, tx_drop_ratio = 0, tx_fail = 0,
      link_status = ARSDK_LINK_STATUS_KO,
      cmd_log = [(ARSDK_CMD_DIR_TX, [2, 11, 255, 10, 0, 0, 0])],
      ulog = [LOGE_partial_write 4 10]\<rparr>, [])"
proof -
  let ?self = "\<lparr>started = 1, data_sock_fd = 3, rx_drop_ratio = 0, tx_drop_ratio = 0,
      tx_fail = 0, link_status = ARSDK_LINK_STATUS_KO, cmd_log = [], ulog = []\<rparr>"
  let ?hdr = "\<lparr>hdr_type = 2, hdr_id = 11, hdr_seq = 255\<rparr>"
  let ?pl = "\<lparr>cdata = Some [9, 8, 7 :: u8], len = 3\<rparr>"
  have fs: "frame_size 0 ?pl = 10" by (simp add: frame_size_def)
  have ch: "construct_header ?hdr 10 = [2, 11, 255, 10, 0, 0, 0]"
    by (simp add: construct_header_def)
  have iov: "setup_iov [2, 11, 255, 10, 0, 0, 0] None 0 ?pl =
      [([2, 11, 255, 10, 0, 0, 0], 7), ([9, 8, 7], 3)]"
    by (simp add: setup_iov_def)
  have wr: "socket_write ?self [([2, 11, 255, 10, 0, 0, 0], 7), ([9, 8, 7], 3)] 10 0 [(4, 0)] =
      Some (4, ?self, [])"
    by (simp add: socket_write_def)
  show ?thesis
    using partial_write_is_error [of ?self 0 None ?pl ?hdr 0 "[(4, 0)]" 4 ?self "[]"] wr
    by (simp add: fs ch iov)
qed

text \<open>
  C6: a full send buffer. On a started transport with an open socket and arguments that
  pass the checks: when the write of socket\_write fails with \<^verbatim>\<open>ENOBUFS\<close>, send\_data
  returns 0, adds one to the counter \<^verbatim>\<open>tx_fail\<close> (in the \<^verbatim>\<open>int\<close> of C, and by one as
  an integer whenever the counter is below the largest \<^verbatim>\<open>int\<close>), logs a warning and
  leaves the link status as it was. When the write returns the full frame size and the
  counter is positive, send\_data returns 0, sets the counter to zero and logs the
  message of recovery with the count of failures.
\<close>

theorem enobufs_counted_then_reset:
  assumes st: "started self \<noteq> 0" and fd: "0 \<le> data_sock_fd self"
    and eh: "extra_hdrlen = 0 \<or> extra_hdr \<noteq> None"
    and pl: "len payload = 0 \<or> cdata payload \<noteq> None"
  shows
    "(socket_write self
        (setup_iov (construct_header header (frame_size extra_hdrlen payload))
           extra_hdr extra_hdrlen payload)
        (unat (frame_size extra_hdrlen payload)) rnd script = Some (- ENOBUFS, self1, rest) \<longrightarrow>
      arsdk_transport_net_send_data self (Some header) (Some payload) extra_hdr extra_hdrlen
        rnd script =
      Some (0,
            self\<lparr>cmd_log := cmd_log self @
                     [(ARSDK_CMD_DIR_TX,
                       construct_header header (frame_size extra_hdrlen payload))],
                 tx_fail := tx_fail self + 1,
                 ulog := ulog self @ [LOGW_sendmsg (frame_size extra_hdrlen payload) ENOBUFS]\<rparr>,
            rest) \<and>
      (sint (tx_fail self) < 2147483647 \<longrightarrow> sint (tx_fail self + 1) = sint (tx_fail self) + 1)) \<and>
     (socket_write self
        (setup_iov (construct_header header (frame_size extra_hdrlen payload))
           extra_hdr extra_hdrlen payload)
        (unat (frame_size extra_hdrlen payload)) rnd script =
        Some (int (unat (frame_size extra_hdrlen payload)), self1, rest) \<and>
      0 <s tx_fail self \<longrightarrow>
      arsdk_transport_net_send_data self (Some header) (Some payload) extra_hdr extra_hdrlen
        rnd script =
      Some (0,
            self1\<lparr>cmd_log := cmd_log self @
                      [(ARSDK_CMD_DIR_TX,
                        construct_header header (frame_size extra_hdrlen payload))],
                  tx_fail := 0,
                  ulog := ulog self1 @
                      [LOGI_succeed_after (frame_size extra_hdrlen payload) (tx_fail self)]\<rparr>,
            rest))"
proof (intro conjI impI)
  assume wr: "socket_write self
        (setup_iov (construct_header header (frame_size extra_hdrlen payload))
           extra_hdr extra_hdrlen payload)
        (unat (frame_size extra_hdrlen payload)) rnd script = Some (- ENOBUFS, self1, rest)"
  have s1: "self1 = self"
    by (rule socket_write_negative [OF wr]) (simp add: ENOBUFS_def)
  show "arsdk_transport_net_send_data self (Some header) (Some payload) extra_hdr extra_hdrlen
        rnd script =
      Some (0,
            self\<lparr>cmd_log := cmd_log self @
                     [(ARSDK_CMD_DIR_TX,
                       construct_header header (frame_size extra_hdrlen payload))],
                 tx_fail := tx_fail self + 1,
                 ulog := ulog self @ [LOGW_sendmsg (frame_size extra_hdrlen payload) ENOBUFS]\<rparr>,
            rest)"
    using st fd eh pl
    by (simp add: send_data_defs socket_write_cmd_log
        wr [unfolded s1] ENOBUFS_def)
next
  assume "sint (tx_fail self) < 2147483647"
  then show "sint (tx_fail self + 1) = sint (tx_fail self) + 1"
    by (rule sint_succ_u32)
next
  assume a: "socket_write self
        (setup_iov (construct_header header (frame_size extra_hdrlen payload))
           extra_hdr extra_hdrlen payload)
        (unat (frame_size extra_hdrlen payload)) rnd script =
        Some (int (unat (frame_size extra_hdrlen payload)), self1, rest) \<and>
      0 <s tx_fail self"
  then have wr: "socket_write self
        (setup_iov (construct_header header (frame_size extra_hdrlen payload))
           extra_hdr extra_hdrlen payload)
        (unat (frame_size extra_hdrlen payload)) rnd script =
        Some (int (unat (frame_size extra_hdrlen payload)), self1, rest)"
    and pos: "0 <s tx_fail self" by simp_all
  have tf: "tx_fail self1 = tx_fail self" and cl: "cmd_log self1 = cmd_log self"
    using socket_write_state [OF wr] by auto
  show "arsdk_transport_net_send_data self (Some header) (Some payload) extra_hdr extra_hdrlen
        rnd script =
      Some (0,
            self1\<lparr>cmd_log := cmd_log self @
                      [(ARSDK_CMD_DIR_TX,
                        construct_header header (frame_size extra_hdrlen payload))],
                  tx_fail := 0,
                  ulog := ulog self1 @
                      [LOGI_succeed_after (frame_size extra_hdrlen payload) (tx_fail self)]\<rparr>,
            rest)"
    using st fd eh pl pos
    by (simp add: send_data_defs socket_write_cmd_log wr tf)
qed

theorem enobufs_counted_then_reset_witness:
  "started demo_self \<noteq> 0 \<and> 0 \<le> data_sock_fd demo_self \<and>
   (len demo_payload = 0 \<or> cdata demo_payload \<noteq> None) \<and>
   socket_write demo_self demo_iov 10 0 [(- 1, ENOBUFS), (10, 0)] =
     Some (- ENOBUFS, demo_self, [(10, 0)]) \<and>
   arsdk_transport_net_send_data demo_self (Some demo_header) (Some demo_payload) None 0 0
     [(- 1, ENOBUFS), (10, 0)] =
     Some (0, demo_self\<lparr>cmd_log := [(ARSDK_CMD_DIR_TX, demo_headerbuf)], tx_fail := 1,
                      ulog := [LOGW_sendmsg 10 ENOBUFS]\<rparr>, [(10, 0)]) \<and>
   sint (tx_fail demo_self) < 2147483647 \<and>
   sint (tx_fail demo_self + 1) = sint (tx_fail demo_self) + 1 \<and>
   socket_write (demo_self\<lparr>cmd_log := [(ARSDK_CMD_DIR_TX, demo_headerbuf)], tx_fail := 1,
                      ulog := [LOGW_sendmsg 10 ENOBUFS]\<rparr>) demo_iov 10 0 [(10, 0)] =
     Some (10, demo_self\<lparr>cmd_log := [(ARSDK_CMD_DIR_TX, demo_headerbuf)], tx_fail := 1,
                      ulog := [LOGW_sendmsg 10 ENOBUFS]\<rparr>, []) \<and>
   0 <s tx_fail (demo_self\<lparr>cmd_log := [(ARSDK_CMD_DIR_TX, demo_headerbuf)], tx_fail := 1,
                      ulog := [LOGW_sendmsg 10 ENOBUFS]\<rparr>) \<and>
   arsdk_transport_net_send_data
     (demo_self\<lparr>cmd_log := [(ARSDK_CMD_DIR_TX, demo_headerbuf)], tx_fail := 1,
                      ulog := [LOGW_sendmsg 10 ENOBUFS]\<rparr>)
     (Some demo_header) (Some demo_payload) None 0 0 [(10, 0)] =
     Some (0, demo_self\<lparr>cmd_log := [(ARSDK_CMD_DIR_TX, demo_headerbuf),
                                    (ARSDK_CMD_DIR_TX, demo_headerbuf)],
                      tx_fail := 0,
                      ulog := [LOGW_sendmsg 10 ENOBUFS, LOGI_succeed_after 10 1]\<rparr>, [])"
proof -
  let ?s1 = "demo_self\<lparr>cmd_log := [(ARSDK_CMD_DIR_TX, demo_headerbuf)], tx_fail := 1,
                      ulog := [LOGW_sendmsg 10 ENOBUFS]\<rparr>"
  have st: "started demo_self \<noteq> 0" and fd: "0 \<le> data_sock_fd demo_self"
    and st1: "started ?s1 \<noteq> 0" and fd1: "0 \<le> data_sock_fd ?s1"
    by (simp_all add: demo_self_def)
  have w1: "socket_write demo_self demo_iov 10 0 [(- 1, ENOBUFS), (10, 0)] =
      Some (- ENOBUFS, demo_self, [(10, 0)])"
    by (simp add: socket_write_def demo_self_def errno_defs)
  have w2: "socket_write ?s1 demo_iov 10 0 [(10, 0)] = Some (10, ?s1, [])"
    by (simp add: socket_write_def demo_self_def)
  have pos: "0 <s tx_fail ?s1" by (simp add: word_sless_alt)
  have small: "sint (tx_fail demo_self) < 2147483647" by (simp add: demo_self_def)
  have fields: "cmd_log demo_self = []" "ulog demo_self = []" "tx_fail demo_self = 0"
    by (simp_all add: demo_self_def)
  note first = enobufs_counted_then_reset
      [OF st fd demo_args, of demo_header 0 "[(- 1, ENOBUFS), (10, 0)]" demo_self "[(10, 0)]",
       unfolded demo_frame unat_10, THEN conjunct1, rule_format, OF w1]
  note second = enobufs_counted_then_reset
      [OF st1 fd1 demo_args, of demo_header 0 "[(10, 0)]" ?s1 "[]",
       unfolded demo_frame unat_10, THEN conjunct2, rule_format]
  have a: "arsdk_transport_net_send_data demo_self (Some demo_header) (Some demo_payload)
      None 0 0 [(- 1, ENOBUFS), (10, 0)] = Some (0, ?s1, [(10, 0)])"
    using first [THEN conjunct1] by (simp add: fields)
  have b: "sint (tx_fail demo_self + 1) = sint (tx_fail demo_self) + 1"
    using first [THEN conjunct2] small by simp
  have c: "arsdk_transport_net_send_data ?s1 (Some demo_header) (Some demo_payload)
      None 0 0 [(10, 0)] =
      Some (0, demo_self\<lparr>cmd_log := [(ARSDK_CMD_DIR_TX, demo_headerbuf),
                                      (ARSDK_CMD_DIR_TX, demo_headerbuf)],
                        tx_fail := 0,
                        ulog := [LOGW_sendmsg 10 ENOBUFS, LOGI_succeed_after 10 1]\<rparr>, [])"
    using second w2 pos by simp
  show ?thesis
    using st fd demo_args(2) w1 w2 pos small a b c by simp
qed

text \<open>
  C7: two failures, one transition. The link status is OK, and the write of a first
  send fails with a negative result that is neither \<^verbatim>\<open>-ENOBUFS\<close> nor a would-block
  code: send\_data returns that result, logs one error and sets the link status to KO.
  When the write of the next send, on the state the first one left, fails in the same
  way, send\_data returns the result and changes nothing but the frames handed to the
  command logger: the link status stays KO and nothing is logged. Over the two sends
  there is one more error in the log than before.
\<close>

theorem two_failures_one_transition:
  assumes st: "started self \<noteq> 0" and fd: "0 \<le> data_sock_fd self"
    and ok: "link_status self = ARSDK_LINK_STATUS_OK"
    and eh1: "el1 = 0 \<or> eh1 \<noteq> None" and pl1: "len p1 = 0 \<or> cdata p1 \<noteq> None"
    and eh2: "el2 = 0 \<or> eh2 \<noteq> None" and pl2: "len p2 = 0 \<or> cdata p2 \<noteq> None"
    and wr1: "socket_write self
                (setup_iov (construct_header h1 (frame_size el1 p1)) eh1 el1 p1)
                (unat (frame_size el1 p1)) rnd1 script = Some (w1, s1, rest1)"
    and neg1: "w1 < 0" and nb1: "w1 \<noteq> - ENOBUFS" and wb1: "\<not> ARSDK_WOULD_BLOCK (- w1)"
  shows "let self' = self\<lparr>cmd_log := cmd_log self @
                        [(ARSDK_CMD_DIR_TX, construct_header h1 (frame_size el1 p1))],
                      link_status := ARSDK_LINK_STATUS_KO,
                      ulog := ulog self @ [LOG_FD_ERRNO_sendmsg (- w1)]\<rparr>
         in arsdk_transport_net_send_data self (Some h1) (Some p1) eh1 el1 rnd1 script =
              Some (w1, self', rest1) \<and>
            length (filter is_error_log (ulog self')) =
              length (filter is_error_log (ulog self)) + 1 \<and>
            (\<forall>w2 s2 rest2.
               socket_write self'
                 (setup_iov (construct_header h2 (frame_size el2 p2)) eh2 el2 p2)
                 (unat (frame_size el2 p2)) rnd2 rest1 = Some (w2, s2, rest2) \<and>
               w2 < 0 \<and> w2 \<noteq> - ENOBUFS \<and> \<not> ARSDK_WOULD_BLOCK (- w2) \<longrightarrow>
               arsdk_transport_net_send_data self' (Some h2) (Some p2) eh2 el2 rnd2 rest1 =
                 Some (w2,
                       self'\<lparr>cmd_log := cmd_log self' @
                                [(ARSDK_CMD_DIR_TX, construct_header h2 (frame_size el2 p2))]\<rparr>,
                       rest2))"
proof -
  define self' where "self' = self\<lparr>cmd_log := cmd_log self @
      [(ARSDK_CMD_DIR_TX, construct_header h1 (frame_size el1 p1))],
      link_status := ARSDK_LINK_STATUS_KO,
      ulog := ulog self @ [LOG_FD_ERRNO_sendmsg (- w1)]\<rparr>"
  have s1: "s1 = self" by (rule socket_write_negative [OF wr1 neg1])
  have send1: "arsdk_transport_net_send_data self (Some h1) (Some p1) eh1 el1 rnd1 script =
      Some (w1, self', rest1)"
    using st fd eh1 pl1 neg1 nb1 wb1 ok
    by (simp add: send_data_defs socket_write_cmd_log wr1 [unfolded s1] self'_def)
  have errs: "length (filter is_error_log (ulog self')) =
      length (filter is_error_log (ulog self)) + 1"
    by (simp add: self'_def)
  have second: "arsdk_transport_net_send_data self' (Some h2) (Some p2) eh2 el2 rnd2 rest1 =
        Some (w2, self'\<lparr>cmd_log := cmd_log self' @
          [(ARSDK_CMD_DIR_TX, construct_header h2 (frame_size el2 p2))]\<rparr>, rest2)"
    if wr2: "socket_write self'
           (setup_iov (construct_header h2 (frame_size el2 p2)) eh2 el2 p2)
           (unat (frame_size el2 p2)) rnd2 rest1 = Some (w2, s2, rest2)"
      and neg2: "w2 < 0" and nb2: "w2 \<noteq> - ENOBUFS" and wb2: "\<not> ARSDK_WOULD_BLOCK (- w2)"
    for w2 s2 rest2
  proof -
    have s2: "s2 = self'" by (rule socket_write_negative [OF wr2 neg2])
    have st': "started self' \<noteq> 0" and fd': "0 \<le> data_sock_fd self'"
      and ko: "link_status self' = ARSDK_LINK_STATUS_KO"
      using st fd by (simp_all add: self'_def)
    show ?thesis
      using st' fd' ko eh2 pl2 neg2 nb2 wb2
      by (simp add: send_data_defs socket_write_cmd_log wr2 [unfolded s2])
  qed
  show ?thesis
    unfolding Let_def self'_def [symmetric]
    using send1 errs second by blast
qed

theorem two_failures_one_transition_witness:
  "started demo_self \<noteq> 0 \<and> 0 \<le> data_sock_fd demo_self \<and>
   link_status demo_self = ARSDK_LINK_STATUS_OK \<and>
   (len demo_payload = 0 \<or> cdata demo_payload \<noteq> None) \<and>
   socket_write demo_self demo_iov 10 0 [(- 1, EPIPE), (- 1, EPIPE)] =
     Some (- EPIPE, demo_self, [(- 1, EPIPE)]) \<and>
   - EPIPE < 0 \<and> - EPIPE \<noteq> - ENOBUFS \<and> \<not> ARSDK_WOULD_BLOCK (- (- EPIPE)) \<and>
   arsdk_transport_net_send_data demo_self (Some demo_header) (Some demo_payload) None 0 0
     [(- 1, EPIPE), (- 1, EPIPE)] =
     Some (- EPIPE,
           demo_self\<lparr>cmd_log := [(ARSDK_CMD_DIR_TX, demo_headerbuf)],
                     link_status := ARSDK_LINK_STATUS_KO,
                     ulog := [LOG_FD_ERRNO_sendmsg EPIPE]\<rparr>, [(- 1, EPIPE)]) \<and>
   socket_write (demo_self\<lparr>cmd_log := [(ARSDK_CMD_DIR_TX, demo_headerbuf)],
                     link_status := ARSDK_LINK_STATUS_KO,
                     ulog := [LOG_FD_ERRNO_sendmsg EPIPE]\<rparr>) demo_iov 10 0 [(- 1, EPIPE)] =
     Some (- EPIPE, demo_self\<lparr>cmd_log := [(ARSDK_CMD_DIR_TX, demo_headerbuf)],
                     link_status := ARSDK_LINK_STATUS_KO,
                     ulog := [LOG_FD_ERRNO_sendmsg EPIPE]\<rparr>, []) \<and>
   arsdk_transport_net_send_data
     (demo_self\<lparr>cmd_log := [(ARSDK_CMD_DIR_TX, demo_headerbuf)],
                link_status := ARSDK_LINK_STATUS_KO,
                ulog := [LOG_FD_ERRNO_sendmsg EPIPE]\<rparr>)
     (Some demo_header) (Some demo_payload) None 0 0 [(- 1, EPIPE)] =
     Some (- EPIPE,
           demo_self\<lparr>cmd_log := [(ARSDK_CMD_DIR_TX, demo_headerbuf),
                                 (ARSDK_CMD_DIR_TX, demo_headerbuf)],
                     link_status := ARSDK_LINK_STATUS_KO,
                     ulog := [LOG_FD_ERRNO_sendmsg EPIPE]\<rparr>, []) \<and>
   length (filter is_error_log [LOG_FD_ERRNO_sendmsg EPIPE]) =
     length (filter is_error_log (ulog demo_self)) + 1"
proof -
  let ?s1 = "demo_self\<lparr>cmd_log := [(ARSDK_CMD_DIR_TX, demo_headerbuf)],
                     link_status := ARSDK_LINK_STATUS_KO,
                     ulog := [LOG_FD_ERRNO_sendmsg EPIPE]\<rparr>"
  have st: "started demo_self \<noteq> 0" and fd: "0 \<le> data_sock_fd demo_self"
    and ok: "link_status demo_self = ARSDK_LINK_STATUS_OK"
    by (simp_all add: demo_self_def)
  have fields: "cmd_log demo_self = []" "ulog demo_self = []"
    by (simp_all add: demo_self_def)
  have w1: "socket_write demo_self demo_iov 10 0 [(- 1, EPIPE), (- 1, EPIPE)] =
      Some (- EPIPE, demo_self, [(- 1, EPIPE)])"
    by (simp add: socket_write_def demo_self_def errno_defs)
  have w2: "socket_write ?s1 demo_iov 10 0 [(- 1, EPIPE)] = Some (- EPIPE, ?s1, [])"
    by (simp add: socket_write_def demo_self_def errno_defs)
  have e: "- EPIPE < 0" "- EPIPE \<noteq> - ENOBUFS" "\<not> ARSDK_WOULD_BLOCK (- (- EPIPE))"
    by (simp_all add: errno_defs ARSDK_WOULD_BLOCK_def)
  note inst = two_failures_one_transition
      [OF st fd ok demo_args demo_args, of demo_header 0 "[(- 1, EPIPE), (- 1, EPIPE)]"
          "- EPIPE" demo_self "[(- 1, EPIPE)]" demo_header 0,
       unfolded demo_frame unat_10 Let_def fields, OF w1 e]
  have send1: "arsdk_transport_net_send_data demo_self (Some demo_header) (Some demo_payload)
       None 0 0 [(- 1, EPIPE), (- 1, EPIPE)] = Some (- EPIPE, ?s1, [(- 1, EPIPE)])"
    using inst by simp
  have errs: "length (filter is_error_log [LOG_FD_ERRNO_sendmsg EPIPE]) =
     length (filter is_error_log (ulog demo_self)) + 1"
    by (simp add: fields)
  have send2: "arsdk_transport_net_send_data ?s1 (Some demo_header) (Some demo_payload)
       None 0 0 [(- 1, EPIPE)] =
     Some (- EPIPE,
           demo_self\<lparr>cmd_log := [(ARSDK_CMD_DIR_TX, demo_headerbuf),
                                 (ARSDK_CMD_DIR_TX, demo_headerbuf)],
                     link_status := ARSDK_LINK_STATUS_KO,
                     ulog := [LOG_FD_ERRNO_sendmsg EPIPE]\<rparr>, [])"
    using inst [THEN conjunct2, THEN conjunct2, rule_format, of "- EPIPE" ?s1 "[]"] w2 e
    by simp
  show ?thesis
    using st fd ok demo_args(2) w1 w2 e send1 send2 errs by simp
qed

text \<open>
  C8: the acknowledgment ids. Each of the six is its base id plus half the id space,
  128 of 256 and 16 of 32; the six are pairwise different, and none of them is one of
  the primary ids 0, 1, 10, 11, 12, 126, 127, 14 and 15. The acknowledgment id of 126
  is 254.
\<close>

theorem ack_ids_derivation:
  "ARSDK_TRANSPORT_ID_ACKOFF * 2 = ARSDK_TRANSPORT_ID_MAX \<and>
   ARSDK_TRANSPORT_ID_ACKOFF_BLE * 2 = ARSDK_TRANSPORT_ID_MAX_BLE \<and>
   ARSDK_TRANSPORT_ID_ACKOFF = 128 \<and> ARSDK_TRANSPORT_ID_ACKOFF_BLE = 16 \<and>
   ARSDK_TRANSPORT_ID_C2D_CMD_ACK = ARSDK_TRANSPORT_ID_D2C_CMD_WITHACK + 128 \<and>
   ARSDK_TRANSPORT_ID_D2C_CMD_ACK = ARSDK_TRANSPORT_ID_C2D_CMD_WITHACK + 128 \<and>
   ARSDK_TRANSPORT_ID_D2C_CMD_HIGHPRIO_ACK = ARSDK_TRANSPORT_ID_C2D_CMD_HIGHPRIO + 128 \<and>
   ARSDK_TRANSPORT_ID_C2D_CMD_ACK_BLE = ARSDK_TRANSPORT_ID_D2C_CMD_WITHACK_BLE + 16 \<and>
   ARSDK_TRANSPORT_ID_D2C_CMD_ACK_BLE = ARSDK_TRANSPORT_ID_C2D_CMD_WITHACK + 16 \<and>
   ARSDK_TRANSPORT_ID_D2C_CMD_HIGHPRIO_ACK_BLE = ARSDK_TRANSPORT_ID_C2D_CMD_HIGHPRIO + 16 \<and>
   primary_ids = [0, 1, 10, 11, 12, 126, 127, 14, 15] \<and>
   ack_ids = [254, 30, 139, 140, 27, 28] \<and>
   distinct ack_ids \<and> set ack_ids \<inter> set primary_ids = {} \<and>
   ARSDK_TRANSPORT_ID_D2C_CMD_WITHACK = 126 \<and> ARSDK_TRANSPORT_ID_C2D_CMD_ACK = 254"
  by (simp add: ack_ids_def primary_ids_def transport_id_defs)

text \<open>
  C9: three frames in one datagram. Forty bytes hold frames of sizes 10, 7 and 23,
  one after the other, with any header bytes and any payload bytes. process\_rxbuf
  dispatches three frames in that order, with payloads of 3, 0 and 16 bytes at the
  indices 7 and 24 (the empty one is \<^verbatim>\<open>NULL\<close>), each header read from the seven bytes
  of its own frame, and the buffer is used up.
\<close>

theorem three_frames_packed:
  fixes p1 p3 :: "u8 list"
  assumes l1: "length p1 = 3" and l3: "length p3 = 16"
  shows "process_rxbuf ([t1, i1, s1, 10, 0, 0, 0] @ p1 @ [t2, i2, s2, 7, 0, 0, 0] @
                        [t3, i3, s3, 23, 0, 0, 0] @ p3) 40 =
     Some ([(\<lparr>hdr_type = unat t1, hdr_id = unat i1, hdr_seq = unat s1\<rparr>,
             \<lparr>cdata = Some 7, len = 3\<rparr>),
            (\<lparr>hdr_type = unat t2, hdr_id = unat i2, hdr_seq = unat s2\<rparr>,
             \<lparr>cdata = None, len = 0\<rparr>),
            (\<lparr>hdr_type = unat t3, hdr_id = unat i3, hdr_seq = unat s3\<rparr>,
             \<lparr>cdata = Some 24, len = 16\<rparr>)], Exhausted)"
proof -
  define h1 where "h1 = [t1, i1, s1, 10, 0, 0, 0]"
  define h2 where "h2 = [t2, i2, s2, 7, 0, 0, 0]"
  define h3 where "h3 = [t3, i3, s3, 23, 0, 0, 0]"
  define buf where "buf = h1 @ p1 @ h2 @ h3 @ p3"
  have lb: "length buf = 40" by (simp add: buf_def h1_def h2_def h3_def l1 l3)
  have L: "length buf < 2 ^ 32" by (simp add: lb)
  have s1: "decode_size h1 = of_nat (7 + length p1)"
    by (simp add: h1_def decode_size_def l1)
  have s2: "decode_size h2 = of_nat (7 + length ([] :: u8 list))"
    by (simp add: h2_def decode_size_def)
  have s3: "decode_size h3 = of_nat (7 + length p3)"
    by (simp add: h3_def decode_size_def l3)
  have b1: "buf = [] @ h1 @ p1 @ (h2 @ h3 @ p3)" by (simp add: buf_def)
  have b2: "buf = (h1 @ p1) @ h2 @ [] @ (h3 @ p3)" by (simp add: buf_def)
  have b3: "buf = (h1 @ p1 @ h2) @ h3 @ p3 @ []" by (simp add: buf_def)
  have n1: "p1 \<noteq> []" and n3: "p3 \<noteq> []" using l1 l3 by auto
  have "process_rxbuf buf 40 =
      process_rxbuf_loop buf (of_nat (length buf)) (of_nat (length ([] :: u8 list))) []"
    by (simp add: process_rxbuf_def lb)
  also have "\<dots> = process_rxbuf_loop buf (of_nat (length buf)) (of_nat (length (h1 @ p1)))
      [(\<lparr>hdr_type = unat t1, hdr_id = unat i1, hdr_seq = unat s1\<rparr>,
        \<lparr>cdata = Some 7, len = 3\<rparr>)]"
    by (subst loop_well_formed_frame [OF h1_def s1 b1 L]) (simp add: n1 l1 h1_def)
  also have "\<dots> = process_rxbuf_loop buf (of_nat (length buf)) (of_nat (length (h1 @ p1 @ h2)))
      [(\<lparr>hdr_type = unat t1, hdr_id = unat i1, hdr_seq = unat s1\<rparr>,
        \<lparr>cdata = Some 7, len = 3\<rparr>),
       (\<lparr>hdr_type = unat t2, hdr_id = unat i2, hdr_seq = unat s2\<rparr>,
        \<lparr>cdata = None, len = 0\<rparr>)]"
    by (subst loop_well_formed_frame [OF h2_def s2 b2 L]) (simp add: l1 h1_def h2_def)
  also have "\<dots> = process_rxbuf_loop buf (of_nat (length buf)) (of_nat (length buf))
      [(\<lparr>hdr_type = unat t1, hdr_id = unat i1, hdr_seq = unat s1\<rparr>,
        \<lparr>cdata = Some 7, len = 3\<rparr>),
       (\<lparr>hdr_type = unat t2, hdr_id = unat i2, hdr_seq = unat s2\<rparr>,
        \<lparr>cdata = None, len = 0\<rparr>),
       (\<lparr>hdr_type = unat t3, hdr_id = unat i3, hdr_seq = unat s3\<rparr>,
        \<lparr>cdata = Some 24, len = 16\<rparr>)]"
    by (subst loop_well_formed_frame [OF h3_def s3 b3 L])
       (simp add: n3 l1 l3 h1_def h2_def h3_def lb)
  also have "\<dots> = Some ([(\<lparr>hdr_type = unat t1, hdr_id = unat i1, hdr_seq = unat s1\<rparr>,
        \<lparr>cdata = Some 7, len = 3\<rparr>),
       (\<lparr>hdr_type = unat t2, hdr_id = unat i2, hdr_seq = unat s2\<rparr>,
        \<lparr>cdata = None, len = 0\<rparr>),
       (\<lparr>hdr_type = unat t3, hdr_id = unat i3, hdr_seq = unat s3\<rparr>,
        \<lparr>cdata = Some 24, len = 16\<rparr>)], Exhausted)"
    by (rule loop_exhausted)
  finally show ?thesis by (simp add: buf_def h1_def h2_def h3_def)
qed

theorem three_frames_packed_witness:
  "length [1, 2, 3 :: u8] = 3 \<and>
   length [1, 2, 3, 4, 5, 6, 7, 8, 9, 10, 11, 12, 13, 14, 15, 16 :: u8] = 16 \<and>
   process_rxbuf ([2, 11, 0, 10, 0, 0, 0] @ [1, 2, 3] @ [4, 126, 1, 7, 0, 0, 0] @
                  [2, 10, 2, 23, 0, 0, 0] @
                  [1, 2, 3, 4, 5, 6, 7, 8, 9, 10, 11, 12, 13, 14, 15, 16]) 40 =
     Some ([(\<lparr>hdr_type = 2, hdr_id = 11, hdr_seq = 0\<rparr>, \<lparr>cdata = Some 7, len = 3\<rparr>),
            (\<lparr>hdr_type = 4, hdr_id = 126, hdr_seq = 1\<rparr>, \<lparr>cdata = None, len = 0\<rparr>),
            (\<lparr>hdr_type = 2, hdr_id = 10, hdr_seq = 2\<rparr>, \<lparr>cdata = Some 24, len = 16\<rparr>)],
           Exhausted)"
  using three_frames_packed
    [of "[1, 2, 3]" "[1, 2, 3, 4, 5, 6, 7, 8, 9, 10, 11, 12, 13, 14, 15, 16]"
        2 11 0 4 126 1 2 10 2]
  by simp

text \<open>
  C10: an empty payload is forwarded as \<^verbatim>\<open>NULL\<close>. Whenever a turn of the loop
  dispatches a frame whose size field is exactly 7, the payload it hands over has
  length 0 and the pointer \<^verbatim>\<open>NULL\<close>.
\<close>

theorem empty_payload_forwarded_as_null:
  assumes "read_headerbuf rxbuf (unat rxoff) = Some headerbuf"
    and "decode_size headerbuf = 7"
    and "process_rxbuf_body rxbuf rxlen rxoff = Dispatch (header, payload) rxoff'"
  shows "len payload = 0 \<and> cdata payload = None"
  using assms
  by (auto simp: process_rxbuf_body_def ARSDK_FRAME_HEADER_SIZE_def Let_def
      arsdk_transport_payload_init_with_data_def split: if_splits)

theorem empty_payload_forwarded_as_null_witness:
  "read_headerbuf [1, 2, 3, 7, 0, 0, 0] (unat (0 :: u32)) = Some [1, 2, 3, 7, 0, 0, 0] \<and>
   decode_size [1, 2, 3, 7, 0, 0, 0] = 7 \<and>
   process_rxbuf_body [1, 2, 3, 7, 0, 0, 0] 7 0 =
     Dispatch (\<lparr>hdr_type = 1, hdr_id = 2, hdr_seq = 3\<rparr>, \<lparr>cdata = None, len = 0\<rparr>) 7 \<and>
   len \<lparr>cdata = None :: nat option, len = 0\<rparr> = 0 \<and>
   cdata \<lparr>cdata = None :: nat option, len = 0\<rparr> = None"
proof -
  have a: "read_headerbuf [1, 2, 3, 7, 0, 0, 0] (unat (0 :: u32)) = Some [1, 2, 3, 7, 0, 0, 0]"
    by (simp add: read_headerbuf_def)
  have b: "decode_size [1, 2, 3, 7, 0, 0, 0] = 7"
    by (simp add: decode_size_def)
  have c: "process_rxbuf_body [1, 2, 3, 7, 0, 0, 0] 7 0 =
     Dispatch (\<lparr>hdr_type = 1, hdr_id = 2, hdr_seq = 3\<rparr>, \<lparr>cdata = None, len = 0\<rparr>) 7"
    by (simp add: rx_body_defs)
  from empty_payload_forwarded_as_null [OF a b c] a b c show ?thesis by simp
qed

end
